theory Spec2Isabelle
  imports Main "HOL-Library.Word"
begin

section \<open>The aggregator of aggregator/aggregator.go\<close>

text \<open>
  The aggregator is a Go struct with two maps (the task registry) and four collaborators
  reached through interfaces: a logger, a chain writer, an event subscriber and the BLS
  aggregation service. The model keeps the struct as a record, each call made to a
  collaborator as an entry of a trace, and each answer of a collaborator as a function
  of the trace so far and of the call's arguments. The mutexes guard single map reads
  and writes of one sequential function and carry no state of their own.
\<close>

subsection \<open>Types of the imported packages\<close>

text \<open>
  A Go \<open>error\<close> is a string here; \<open>None\<close> is \<open>nil\<close>. The integer widths are those of
  the Go declarations the file imports: task indices and block numbers are
  \<open>uint32\<close>, quorum numbers are bytes, the SDK's \<open>QuorumNum\<close> and
  \<open>QuorumThresholdPercentage\<close> are \<open>uint8\<close>, a digest is 32 bytes and a
  \<open>time.Duration\<close> is a signed 64-bit count of nanoseconds. A \<open>*big.Int\<close> is an
  optional integer (\<open>None\<close> is the nil pointer).
\<close>

type_synonym error = string
type_synonym TaskIndex = "32 word"
type_synonym TaskResponseDigest = "256 word"
type_synonym QuorumNum = "8 word"
type_synonym QuorumThresholdPercentage = "8 word"
type_synonym Duration = "64 word"

record Task =
  NumberToBeSquared :: "int option"
  TaskCreatedBlock :: "32 word"
  QuorumNumbers :: "8 word list"
  QuorumThresholdPercentage :: "32 word"

record TaskResponse =
  ReferenceTaskIndex :: "32 word"
  NumberSquared :: "int option"

text \<open>The zero values Go returns when a map is read at a key it does not hold.\<close>

definition zero_Task :: Task where
  "zero_Task =
     \<lparr>NumberToBeSquared = None, TaskCreatedBlock = 0, QuorumNumbers = [],
      QuorumThresholdPercentage = 0\<rparr>"

definition zero_TaskResponse :: TaskResponse where
  "zero_TaskResponse = \<lparr>ReferenceTaskIndex = 0, NumberSquared = None\<rparr>"

text \<open>The two event logs delivered by the subscriptions.\<close>

record NewTaskCreated =
  TaskIndex :: TaskIndex
  Task :: Task

record TaskResponded =
  TaskResponse :: TaskResponse

text \<open>
  The result delivered by the aggregation service. The curve points are opaque to the
  aggregator: \<open>'g1\<close> and \<open>'g2\<close> are the SDK's points, \<open>'p1\<close> and \<open>'p2\<close> the
  contract binding's, and the conversions between them are collaborators. Two records
  cannot share a field name conveniently, so the result's \<open>TaskIndex\<close> is
  \<open>respTaskIndex\<close> here and the four index fields of the contract's struct, which
  carry the names of the result's fields, are primed.
\<close>

record 'g1 Signature =
  G1Point :: 'g1

record ('g1, 'g2) BlsAggregationServiceResponse =
  Err :: "error option"
  respTaskIndex :: TaskIndex
  TaskResponseDigest :: TaskResponseDigest
  NonSignersPubkeysG1 :: "'g1 list"
  QuorumApksG1 :: "'g1 list"
  SignersApkG2 :: 'g2
  SignersAggSigG1 :: "'g1 Signature"
  NonSignerQuorumBitmapIndices :: "32 word list"
  QuorumApkIndices :: "32 word list"
  TotalStakeIndices :: "32 word list"
  NonSignerStakeIndices :: "32 word list list"

record ('p1, 'p2) NonSignerStakesAndSignature =
  NonSignerQuorumBitmapIndices' :: "32 word list"
  NonSignerPubkeys :: "'p1 list"
  QuorumApks :: "'p1 list"
  ApkG2 :: 'p2
  Sigma :: 'p1
  QuorumApkIndices' :: "32 word list"
  TotalStakeIndices' :: "32 word list"
  NonSignerStakeIndices' :: "32 word list list"

subsection \<open>Calls to the collaborators\<close>

text \<open>
  One constructor per call the file makes. A log entry keeps its message and, for an
  error entry, the error it reports. A subscription is identified by the position of
  the call that made it, so every call to subscribe yields a new handle.
\<close>

datatype ('p1, 'p2) effect =
    LogInfo string
  | LogError string error
  | StartServer
  | SubscribeToNewTasks nat
  | SubscribeToTaskResponses nat
  | Unsubscribe nat
  | InitializeNewTask TaskIndex "32 word" "QuorumNum list" "QuorumThresholdPercentage list" Duration
  | SendAggregatedResponse Task TaskResponse "('p1, 'p2) NonSignerStakesAndSignature"

record ('g1, 'g2, 'p1, 'p2) collaborators =
  ConvertToBN254G1Point :: "'g1 \<Rightarrow> 'p1"
  ConvertToBN254G2Point :: "'g2 \<Rightarrow> 'p2"
  InitializeNewTask_err ::
    "('p1, 'p2) effect list \<Rightarrow> TaskIndex \<Rightarrow> 32 word \<Rightarrow> QuorumNum list \<Rightarrow>
       QuorumThresholdPercentage list \<Rightarrow> Duration \<Rightarrow> error option"
  SendAggregatedResponse_err ::
    "('p1, 'p2) effect list \<Rightarrow> Task \<Rightarrow> TaskResponse \<Rightarrow>
       ('p1, 'p2) NonSignerStakesAndSignature \<Rightarrow> error option"

subsection \<open>The struct and its constants\<close>

record Aggregator =
  serverIpPortAddr :: string
  newTaskCreatedChan :: nat
  newTaskRespondedChan :: nat
  tasks :: "TaskIndex \<rightharpoonup> Task"
  taskResponses :: "TaskIndex \<rightharpoonup> (TaskResponseDigest \<rightharpoonup> TaskResponse)"

definition Second :: Duration where
  "Second = 1000000000"

definition taskChallengeWindowBlock :: Duration where
  "taskChallengeWindowBlock = 100"

definition blockTimeSeconds :: Duration where
  "blockTimeSeconds = 12 * Second"

text \<open>The two conversions to the SDK's types (Go conversions between integer types).\<close>

definition to_QuorumThresholdPercentage :: "32 word \<Rightarrow> QuorumThresholdPercentage" where
  "to_QuorumThresholdPercentage x = ucast x"

definition to_QuorumNum :: "8 word \<Rightarrow> QuorumNum" where
  "to_QuorumNum x = ucast x"

text \<open>Reading a Go map at a key: the stored value, or the zero value.\<close>

definition lookup_task :: "Aggregator \<Rightarrow> TaskIndex \<Rightarrow> Task" where
  "lookup_task agg i = (case tasks agg i of None \<Rightarrow> zero_Task | Some t \<Rightarrow> t)"

definition lookup_taskResponse ::
  "Aggregator \<Rightarrow> TaskIndex \<Rightarrow> TaskResponseDigest \<Rightarrow> TaskResponse" where
  "lookup_taskResponse agg i d =
     (case taskResponses agg i of
        None \<Rightarrow> zero_TaskResponse
      | Some inner \<Rightarrow> (case inner d of None \<Rightarrow> zero_TaskResponse | Some r \<Rightarrow> r))"

subsection \<open>processTaskCreatedLog\<close>

text \<open>
  The threshold slice is made with one zero per quorum number and then written index by
  index; the quorum-number slice is appended to, element by element.
\<close>

definition fill_thresholds :: "Task \<Rightarrow> QuorumThresholdPercentage list" where
  "fill_thresholds t =
     fold (\<lambda>i qs. qs[i := to_QuorumThresholdPercentage (QuorumThresholdPercentage t)])
       [0 ..< length (QuorumNumbers t)]
       (replicate (length (QuorumNumbers t)) 0)"

definition collect_quorumNums :: "Task \<Rightarrow> QuorumNum list" where
  "collect_quorumNums t = fold (\<lambda>q acc. acc @ [to_QuorumNum q]) (QuorumNumbers t) []"

definition taskTimeToExpiry :: Duration where
  "taskTimeToExpiry = taskChallengeWindowBlock * blockTimeSeconds"

definition initCall :: "NewTaskCreated \<Rightarrow> ('p1, 'p2) effect" where
  "initCall taskLog =
     InitializeNewTask (TaskIndex taskLog) (TaskCreatedBlock (Task taskLog))
       (collect_quorumNums (Task taskLog)) (fill_thresholds (Task taskLog)) taskTimeToExpiry"

definition processTaskCreatedLog ::
  "('g1, 'g2, 'p1, 'p2) collaborators \<Rightarrow> Aggregator \<Rightarrow> ('p1, 'p2) effect list \<Rightarrow>
     NewTaskCreated \<Rightarrow> error option \<times> Aggregator \<times> ('p1, 'p2) effect list" where
  "processTaskCreatedLog co agg w taskLog =
     (let agg' = agg\<lparr>tasks := (tasks agg)(TaskIndex taskLog \<mapsto> Task taskLog)\<rparr>;
          quorumThresholdPercentages = fill_thresholds (Task taskLog);
          quorumNums = collect_quorumNums (Task taskLog);
          err = InitializeNewTask_err co w (TaskIndex taskLog)
                  (TaskCreatedBlock (Task taskLog)) quorumNums quorumThresholdPercentages
                  taskTimeToExpiry
      in (err, agg', w @ [initCall taskLog]))"

subsection \<open>sendAggregatedResponseToContract\<close>

datatype 'w exec = Panic error 'w | Done 'w

definition build_nonSignerStakesAndSignature ::
  "('g1, 'g2, 'p1, 'p2) collaborators \<Rightarrow> ('g1, 'g2) BlsAggregationServiceResponse \<Rightarrow>
     ('p1, 'p2) NonSignerStakesAndSignature" where
  "build_nonSignerStakesAndSignature co r =
     (let nonSignerPubkeys =
            fold (\<lambda>p acc. acc @ [ConvertToBN254G1Point co p]) (NonSignersPubkeysG1 r) [];
          quorumApks =
            fold (\<lambda>p acc. acc @ [ConvertToBN254G1Point co p]) (QuorumApksG1 r) []
      in \<lparr>NonSignerQuorumBitmapIndices' = NonSignerQuorumBitmapIndices r,
          NonSignerPubkeys = nonSignerPubkeys,
          QuorumApks = quorumApks,
          ApkG2 = ConvertToBN254G2Point co (SignersApkG2 r),
          Sigma = ConvertToBN254G1Point co (G1Point (SignersAggSigG1 r)),
          QuorumApkIndices' = QuorumApkIndices r,
          TotalStakeIndices' = TotalStakeIndices r,
          NonSignerStakeIndices' = NonSignerStakeIndices r\<rparr>)"

definition sendCall ::
  "('g1, 'g2, 'p1, 'p2) collaborators \<Rightarrow> Aggregator \<Rightarrow>
     ('g1, 'g2) BlsAggregationServiceResponse \<Rightarrow> ('p1, 'p2) effect" where
  "sendCall co agg r =
     SendAggregatedResponse (lookup_task agg (respTaskIndex r))
       (lookup_taskResponse agg (respTaskIndex r) (TaskResponseDigest r))
       (build_nonSignerStakesAndSignature co r)"

definition sendAggregatedResponseToContract ::
  "('g1, 'g2, 'p1, 'p2) collaborators \<Rightarrow> Aggregator \<Rightarrow> ('p1, 'p2) effect list \<Rightarrow>
     ('g1, 'g2) BlsAggregationServiceResponse \<Rightarrow> (('p1, 'p2) effect list) exec" where
  "sendAggregatedResponseToContract co agg w r =
     (case Err r of
        Some e \<Rightarrow>
          Panic e (w @ [LogError ''BlsAggregationServiceResponse contains an error'' e])
      | None \<Rightarrow>
          (let nonSignerStakesAndSignature = build_nonSignerStakesAndSignature co r;
               w1 = w @ [LogInfo ''Threshold reached. Sending aggregated response onchain.''];
               task = lookup_task agg (respTaskIndex r);
               taskResponse =
                 lookup_taskResponse agg (respTaskIndex r) (TaskResponseDigest r);
               err = SendAggregatedResponse_err co w1 task taskResponse
                       nonSignerStakesAndSignature;
               w2 = w1 @ [SendAggregatedResponse task taskResponse nonSignerStakesAndSignature]
           in case err of
                Some e \<Rightarrow> Done (w2 @ [LogError ''Aggregator failed to respond to task'' e])
              | None \<Rightarrow> Done w2))"

subsection \<open>Start\<close>

text \<open>
  Each turn of the loop is one \<open>select\<close>; which case fires is decided outside the
  aggregator, so a run is driven by the list of the cases that fire, in order. When the
  list is used up the loop is still waiting in its \<open>select\<close>.
\<close>

datatype ('g1, 'g2) select_case =
    CtxDone
  | SubTaskCreatedErr error
  | NewTaskCreatedLog NewTaskCreated
  | SubTaskRespondedErr error
  | TaskRespondedLog TaskResponded
  | BlsAggServiceResp "('g1, 'g2) BlsAggregationServiceResponse"

record ('p1, 'p2) loop_state =
  agg :: Aggregator
  subTaskCreated :: nat
  subTaskResponded :: nat
  world :: "('p1, 'p2) effect list"

datatype ('p1, 'p2) outcome =
    Returned "error option" "('p1, 'p2) loop_state"
  | Panicked error "('p1, 'p2) loop_state"
  | Waiting "('p1, 'p2) loop_state"

fun dispatch ::
  "('g1, 'g2, 'p1, 'p2) collaborators \<Rightarrow> ('p1, 'p2) loop_state \<Rightarrow>
     ('g1, 'g2) select_case list \<Rightarrow> ('p1, 'p2) outcome" where
  "dispatch co s [] = Waiting s"
| "dispatch co s (CtxDone # rest) = Returned None s"
| "dispatch co s (SubTaskCreatedErr e # rest) =
     (let w1 = world s @
                 [LogError ''Error in websocket subscription for NewTaskCreated'' e,
                  Unsubscribe (subTaskCreated s)]
      in dispatch co
           (s\<lparr>subTaskCreated := length w1,
              world := w1 @ [SubscribeToNewTasks (newTaskCreatedChan (agg s))]\<rparr>) rest)"
| "dispatch co s (NewTaskCreatedLog l # rest) =
     (let w1 = world s @ [LogInfo ''Received new task''] in
      case processTaskCreatedLog co (agg s) w1 l of
        (Some e, agg', w2) \<Rightarrow>
          dispatch co
            (s\<lparr>agg := agg', world := w2 @ [LogError ''Failed to process new task'' e]\<rparr>) rest
      | (None, agg', w2) \<Rightarrow> dispatch co (s\<lparr>agg := agg', world := w2\<rparr>) rest)"
| "dispatch co s (SubTaskRespondedErr e # rest) =
     (let w1 = world s @
                 [LogError ''Error in websocket subscription for TaskResponded'' e,
                  Unsubscribe (subTaskResponded s)]
      in dispatch co
           (s\<lparr>subTaskResponded := length w1,
              world := w1 @ [SubscribeToTaskResponses (newTaskRespondedChan (agg s))]\<rparr>) rest)"
| "dispatch co s (TaskRespondedLog l # rest) =
     dispatch co
       (s\<lparr>world := world s @
            [LogInfo ''Received task response successfully!; taskRespondedLog: %#v'']\<rparr>) rest"
| "dispatch co s (BlsAggServiceResp r # rest) =
     (let w1 = world s @ [LogInfo ''Received response from blsAggregationService''] in
      case sendAggregatedResponseToContract co (agg s) w1 r of
        Panic e w2 \<Rightarrow> Panicked e (s\<lparr>world := w2\<rparr>)
      | Done w2 \<Rightarrow> dispatch co (s\<lparr>world := w2\<rparr>) rest)"

definition Start ::
  "('g1, 'g2, 'p1, 'p2) collaborators \<Rightarrow> Aggregator \<Rightarrow> ('p1, 'p2) effect list \<Rightarrow>
     ('g1, 'g2) select_case list \<Rightarrow> ('p1, 'p2) outcome" where
  "Start co a w cases =
     (let w1 = w @ [LogInfo ''Starting aggregator'',
                    LogInfo ''Starting aggregator rpc server.'', StartServer];
          w2 = w1 @ [SubscribeToNewTasks (newTaskCreatedChan a)];
          w3 = w2 @ [SubscribeToTaskResponses (newTaskRespondedChan a)]
      in dispatch co
           \<lparr>agg = a, subTaskCreated = length w1, subTaskResponded = length w2, world = w3\<rparr>
           cases)"

subsection \<open>Observations on a trace, and concrete inputs\<close>

text \<open>
  The calls to the chain writer in a trace, the expiry argument of a call to the
  aggregation service, two sets of collaborators (one whose calls all succeed, one whose
  calls all fail) and the inputs the examples run on.
\<close>

fun isSend :: "('p1, 'p2) effect \<Rightarrow> bool" where
  "isSend (SendAggregatedResponse t r n) = True"
| "isSend e = False"

fun timeToExpiry_of :: "('p1, 'p2) effect \<Rightarrow> Duration option" where
  "timeToExpiry_of (InitializeNewTask i b qs ts d) = Some d"
| "timeToExpiry_of e = None"

definition co_accept :: "(nat, nat, nat, nat) collaborators" where
  "co_accept =
     \<lparr>ConvertToBN254G1Point = (\<lambda>p. p), ConvertToBN254G2Point = (\<lambda>p. p),
      InitializeNewTask_err = (\<lambda>w i b qs ts d. None),
      SendAggregatedResponse_err = (\<lambda>w t r n. None)\<rparr>"

definition co_reject :: "(nat, nat, nat, nat) collaborators" where
  "co_reject =
     \<lparr>ConvertToBN254G1Point = (\<lambda>p. p), ConvertToBN254G2Point = (\<lambda>p. p),
      InitializeNewTask_err = (\<lambda>w i b qs ts d. Some ''rejected''),
      SendAggregatedResponse_err = (\<lambda>w t r n. Some ''reverted'')\<rparr>"

definition task_a :: Task where
  "task_a = \<lparr>NumberToBeSquared = Some 3, TaskCreatedBlock = 1000, QuorumNumbers = [0, 1],
             QuorumThresholdPercentage = 67\<rparr>"

definition task_b :: Task where
  "task_b = \<lparr>NumberToBeSquared = Some 4, TaskCreatedBlock = 1001, QuorumNumbers = [0],
             QuorumThresholdPercentage = 66\<rparr>"

definition agg_empty :: Aggregator where
  "agg_empty = \<lparr>serverIpPortAddr = ''localhost:8090'', newTaskCreatedChan = 0,
                newTaskRespondedChan = 1, tasks = Map.empty, taskResponses = Map.empty\<rparr>"

definition agg_one :: Aggregator where
  "agg_one = agg_empty\<lparr>tasks := [5 \<mapsto> task_a]\<rparr>"

definition log_a :: NewTaskCreated where
  "log_a = \<lparr>TaskIndex = 5, Task = task_a\<rparr>"

definition log_b :: NewTaskCreated where
  "log_b = \<lparr>TaskIndex = 5, Task = task_b\<rparr>"

definition resp_ok :: "(nat, nat) BlsAggregationServiceResponse" where
  "resp_ok =
     \<lparr>Err = None, respTaskIndex = 5, TaskResponseDigest = 171,
      NonSignersPubkeysG1 = [7], QuorumApksG1 = [8, 9], SignersApkG2 = 10,
      SignersAggSigG1 = \<lparr>G1Point = 11\<rparr>, NonSignerQuorumBitmapIndices = [0],
      QuorumApkIndices = [0, 0], TotalStakeIndices = [0, 0],
      NonSignerStakeIndices = [[0], [0]]\<rparr>"

definition resp_expired :: "(nat, nat) BlsAggregationServiceResponse" where
  "resp_expired = resp_ok\<lparr>Err := Some ''task expired''\<rparr>"

fun trace_of :: "'w exec \<Rightarrow> 'w" where
  "trace_of (Panic e w) = w"
| "trace_of (Done w) = w"

fun panicked :: "'w exec \<Rightarrow> bool" where
  "panicked (Panic e w) = True"
| "panicked (Done w) = False"

definition response_a :: TaskResponse where
  "response_a = \<lparr>ReferenceTaskIndex = 5, NumberSquared = Some 9\<rparr>"

definition agg_full :: Aggregator where
  "agg_full = agg_one\<lparr>taskResponses := [5 \<mapsto> [171 \<mapsto> response_a]]\<rparr>"

definition loop_start :: "Aggregator \<Rightarrow> (nat, nat) loop_state" where
  "loop_start a = \<lparr>agg = a, subTaskCreated = 0, subTaskResponded = 1,
     world = [SubscribeToNewTasks (newTaskCreatedChan a),
              SubscribeToTaskResponses (newTaskRespondedChan a)]\<rparr>"

fun still_waiting :: "('p1, 'p2) outcome \<Rightarrow> bool" where
  "still_waiting (Waiting s) = True"
| "still_waiting out = False"

fun isTaskCreated :: "('g1, 'g2) select_case \<Rightarrow> bool" where
  "isTaskCreated (NewTaskCreatedLog l) = True"
| "isTaskCreated c = False"

definition task_wide :: Task where
  "task_wide = \<lparr>NumberToBeSquared = Some 3, TaskCreatedBlock = 1000, QuorumNumbers = [0, 1],
                QuorumThresholdPercentage = 256\<rparr>"

definition log_wide :: NewTaskCreated where
  "log_wide = \<lparr>TaskIndex = 7, Task = task_wide\<rparr>"

section \<open>Properties\<close>

subsection \<open>The two loops of processTaskCreatedLog\<close>

lemma fold_update_replicate:
  "n \<le> length qs \<Longrightarrow> fold (\<lambda>i qs. qs[i := v]) [0 ..< n] qs = replicate n v @ drop n qs"
proof (induction n arbitrary: qs)
  case 0
  then show ?case by simp
next
  case (Suc n)
  then have "fold (\<lambda>i qs. qs[i := v]) [0 ..< n] qs = replicate n v @ drop n qs" by simp
  moreover have "(replicate n v @ drop n qs)[n := v] = replicate (Suc n) v @ drop (Suc n) qs"
  proof -
    from Suc.prems have d: "drop n qs = qs ! n # drop (Suc n) qs"
      by (simp add: Cons_nth_drop_Suc)
    show ?thesis
      by (simp add: list_update_append d replicate_app_Cons_same)
  qed
  ultimately show ?case by simp
qed

lemma fill_thresholds_replicate:
  "fill_thresholds t =
     replicate (length (QuorumNumbers t)) (to_QuorumThresholdPercentage (QuorumThresholdPercentage t))"
  by (simp add: fill_thresholds_def fold_update_replicate)

lemma fold_snoc_map: "fold (\<lambda>q acc. acc @ [f q]) xs acc = acc @ map f xs"
  by (induction xs arbitrary: acc) simp_all

lemma collect_quorumNums_eq: "collect_quorumNums t = QuorumNumbers t"
  by (simp add: collect_quorumNums_def fold_snoc_map to_QuorumNum_def)

lemma taskTimeToExpiry_value: "taskTimeToExpiry = 1200 * Second"
  by (simp add: taskTimeToExpiry_def taskChallengeWindowBlock_def blockTimeSeconds_def)

subsection \<open>What one call of each function does\<close>

lemma processTaskCreatedLog_trace:
  "snd (snd (processTaskCreatedLog co a w l)) = w @ [initCall l]"
  by (simp add: processTaskCreatedLog_def Let_def)

lemma processTaskCreatedLog_agg:
  "fst (snd (processTaskCreatedLog co a w l)) = a\<lparr>tasks := (tasks a)(TaskIndex l \<mapsto> Task l)\<rparr>"
  by (simp add: processTaskCreatedLog_def Let_def)

lemma send_ok:
  "Err r = None \<Longrightarrow>
   sendAggregatedResponseToContract co a w r =
     Done (w @ [LogInfo ''Threshold reached. Sending aggregated response onchain.'',
                sendCall co a r] @
           (case SendAggregatedResponse_err co
                   (w @ [LogInfo ''Threshold reached. Sending aggregated response onchain.''])
                   (lookup_task a (respTaskIndex r))
                   (lookup_taskResponse a (respTaskIndex r) (TaskResponseDigest r))
                   (build_nonSignerStakesAndSignature co r) of
              None \<Rightarrow> []
            | Some e \<Rightarrow> [LogError ''Aggregator failed to respond to task'' e]))"
  by (simp add: sendAggregatedResponseToContract_def sendCall_def Let_def split: option.splits)

lemma send_err:
  "Err r = Some e \<Longrightarrow>
   sendAggregatedResponseToContract co a w r =
     Panic e (w @ [LogError ''BlsAggregationServiceResponse contains an error'' e])"
  by (simp add: sendAggregatedResponseToContract_def)

lemma isSend_sendCall: "isSend (sendCall co a r)"
  by (simp add: sendCall_def)

lemma dispatch_Returned:
  "dispatch co s cs = Returned r s' \<Longrightarrow> r = None \<and> CtxDone \<in> set cs"
proof (induction co s cs rule: dispatch.induct)
  case (4 co s l rest)
  then show ?case
    by (auto simp: Let_def split: prod.splits option.splits)
next
  case (7 co s r rest)
  then show ?case
    by (auto simp: Let_def split: exec.splits)
qed (auto simp: Let_def)

lemma dispatch_NewTaskCreatedLog:
  "dispatch co s (NewTaskCreatedLog l # rest) =
     dispatch co
       (s\<lparr>agg := (agg s)\<lparr>tasks := (tasks (agg s))(TaskIndex l \<mapsto> Task l)\<rparr>,
          world := world s @ [LogInfo ''Received new task'', initCall l] @
            (case fst (processTaskCreatedLog co (agg s)
                         (world s @ [LogInfo ''Received new task'']) l) of
               None \<Rightarrow> []
             | Some e \<Rightarrow> [LogError ''Failed to process new task'' e])\<rparr>)
       rest"
  by (simp add: processTaskCreatedLog_def Let_def split: option.splits)

lemma dispatch_created_only:
  "list_all isTaskCreated cs \<Longrightarrow> still_waiting (dispatch co s cs)"
proof (induction cs arbitrary: s)
  case Nil
  then show ?case by simp
next
  case (Cons c cs)
  then obtain l where c: "c = NewTaskCreatedLog l"
    by (cases c) simp_all
  from Cons show ?case
    unfolding c dispatch_NewTaskCreatedLog by simp
qed

subsection \<open>The task registry\<close>

text \<open>
  Claim C1 as stated: a task-created event whose index is already registered leaves the
  stored task as it was. It fails: the registry holds \<open>task_a\<close> under index 5, the
  event carries \<open>task_b\<close> under index 5, and after \<open>processTaskCreatedLog\<close> a read
  of index 5 gives \<open>task_b\<close>.
\<close>

theorem C1_duplicate_overwrites:
  "lookup_task agg_one 5 = task_a \<and>
   lookup_task (fst (snd (processTaskCreatedLog co_accept agg_one [] log_b))) 5 = task_b \<and>
   task_b \<noteq> task_a"
  by (simp add: processTaskCreatedLog_def agg_one_def agg_empty_def log_b_def lookup_task_def
      task_a_def task_b_def Let_def)

text \<open>
  Claim C1, amended: after a task-created event is processed the registry holds the
  event's task under the event's index, whether or not that index was registered before,
  every other index keeps its entry, and the response map is untouched.
\<close>

theorem C1_latest_event_wins:
  "tasks (fst (snd (processTaskCreatedLog co a w l))) = (tasks a)(TaskIndex l \<mapsto> Task l) \<and>
   lookup_task (fst (snd (processTaskCreatedLog co a w l))) (TaskIndex l) = Task l \<and>
   taskResponses (fst (snd (processTaskCreatedLog co a w l))) = taskResponses a"
  by (simp add: processTaskCreatedLog_agg lookup_task_def)

subsection \<open>The call that opens an aggregation session\<close>

text \<open>
  Claim C4: processing a task-created event calls \<open>InitializeNewTask\<close> with the
  task's quorum numbers in their order and with as many thresholds as quorum numbers; a
  task with quorum numbers [0,1] and threshold 67 gives the call the quorum numbers [0,1]
  and the thresholds [67,67].
\<close>

theorem C4_quorums_in_order:
  "snd (snd (processTaskCreatedLog co a w l)) =
     w @ [InitializeNewTask (TaskIndex l) (TaskCreatedBlock (Task l)) (QuorumNumbers (Task l))
            (fill_thresholds (Task l)) taskTimeToExpiry] \<and>
   length (fill_thresholds (Task l)) = length (QuorumNumbers (Task l)) \<and>
   (QuorumNumbers (Task l) = [0, 1] \<and> QuorumThresholdPercentage (Task l) = 67 \<longrightarrow>
      snd (snd (processTaskCreatedLog co a w l)) =
        w @ [InitializeNewTask (TaskIndex l) (TaskCreatedBlock (Task l)) [0, 1] [67, 67]
               taskTimeToExpiry])"
  by (simp add: processTaskCreatedLog_trace initCall_def collect_quorumNums_eq
      fill_thresholds_replicate to_QuorumThresholdPercentage_def)

text \<open>
  Claim C4 at the task \<open>task_a\<close>, which has quorum numbers [0,1] and threshold 67.
\<close>

theorem C4_quorums_in_order_witness:
  "QuorumNumbers (Task log_a) = [0, 1] \<and> QuorumThresholdPercentage (Task log_a) = 67 \<and>
   snd (snd (processTaskCreatedLog co_accept agg_empty [] log_a)) =
     [InitializeNewTask 5 1000 [0, 1] [67, 67] taskTimeToExpiry]"
proof -
  have h: "QuorumNumbers (Task log_a) = [0, 1] \<and> QuorumThresholdPercentage (Task log_a) = 67"
    by (simp add: log_a_def task_a_def)
  have i: "TaskIndex log_a = 5" "TaskCreatedBlock (Task log_a) = 1000"
    by (simp_all add: log_a_def task_a_def)
  from C4_quorums_in_order [of co_accept agg_empty "[]" log_a] h
  have "snd (snd (processTaskCreatedLog co_accept agg_empty [] log_a)) =
          [] @ [InitializeNewTask (TaskIndex log_a) (TaskCreatedBlock (Task log_a)) [0, 1]
                  [67, 67] taskTimeToExpiry]"
    by blast
  with h i show ?thesis by simp
qed

text \<open>
  Claim C5: the time-to-expiry passed to \<open>InitializeNewTask\<close> is
  \<open>taskChallengeWindowBlock * blockTimeSeconds\<close>, that is 1200 seconds (as a signed
  64-bit count of nanoseconds, without wrap-around), whatever the event and its creation
  block are.
\<close>

theorem C5_expiry_constant:
  "map timeToExpiry_of (snd (snd (processTaskCreatedLog co a w l))) =
     map timeToExpiry_of w @ [Some (taskChallengeWindowBlock * blockTimeSeconds)] \<and>
   taskChallengeWindowBlock * blockTimeSeconds = 1200 * Second \<and>
   sint (taskChallengeWindowBlock * blockTimeSeconds) = 1200 * 1000000000"
  by (simp add: processTaskCreatedLog_trace initCall_def taskTimeToExpiry_def
      taskChallengeWindowBlock_def blockTimeSeconds_def Second_def)

text \<open>
  Claim C10 as stated: every threshold passed to \<open>InitializeNewTask\<close> equals the
  task's \<open>QuorumThresholdPercentage\<close> field. It fails: the field is a \<open>uint32\<close>
  and the SDK's threshold type is a \<open>uint8\<close>, so a task with quorum numbers [0,1]
  and the field 256 gives the call the thresholds [0,0].
\<close>

theorem C10_wide_field_truncated:
  "unat (QuorumThresholdPercentage (Task log_wide)) = 256 \<and>
   snd (snd (processTaskCreatedLog co_accept agg_empty [] log_wide)) =
     [InitializeNewTask 7 1000 [0, 1] [0, 0] taskTimeToExpiry] \<and>
   map unat (fill_thresholds (Task log_wide)) = [0, 0] \<and>
   map unat (fill_thresholds (Task log_wide)) \<noteq>
     replicate (length (QuorumNumbers (Task log_wide)))
       (unat (QuorumThresholdPercentage (Task log_wide)))"
  by (simp add: processTaskCreatedLog_trace initCall_def fill_thresholds_replicate
      collect_quorumNums_eq to_QuorumThresholdPercentage_def log_wide_def task_wide_def)

text \<open>
  Claim C10, amended: every threshold passed to \<open>InitializeNewTask\<close> is the task's
  one \<open>QuorumThresholdPercentage\<close> field converted to the SDK's 8-bit threshold type
  (the field modulo 256), once per quorum number, so all thresholds of one task are the
  same; they equal the field itself whenever the field is below 256.
\<close>

theorem C10_thresholds_converted:
  "snd (snd (processTaskCreatedLog co a w l)) =
     w @ [InitializeNewTask (TaskIndex l) (TaskCreatedBlock (Task l))
            (collect_quorumNums (Task l))
            (replicate (length (QuorumNumbers (Task l)))
               (to_QuorumThresholdPercentage (QuorumThresholdPercentage (Task l))))
            taskTimeToExpiry] \<and>
   map unat (fill_thresholds (Task l)) =
     replicate (length (QuorumNumbers (Task l)))
       (unat (QuorumThresholdPercentage (Task l)) mod 256) \<and>
   (unat (QuorumThresholdPercentage (Task l)) < 256 \<longrightarrow>
      map unat (fill_thresholds (Task l)) =
        replicate (length (QuorumNumbers (Task l))) (unat (QuorumThresholdPercentage (Task l))))"
  by (simp add: processTaskCreatedLog_trace initCall_def fill_thresholds_replicate
      to_QuorumThresholdPercentage_def unsigned_ucast_eq take_bit_eq_mod)

text \<open>
  Claim C10, amended, at the task \<open>task_a\<close>: two quorum numbers, threshold 67.
\<close>

theorem C10_thresholds_converted_witness:
  "unat (QuorumThresholdPercentage (Task log_a)) < 256 \<and>
   map unat (fill_thresholds (Task log_a)) = [67, 67] \<and>
   snd (snd (processTaskCreatedLog co_accept agg_empty [] log_a)) =
     [InitializeNewTask 5 1000 (collect_quorumNums (Task log_a)) [67, 67] taskTimeToExpiry]"
proof -
  have h: "unat (QuorumThresholdPercentage (Task log_a)) < 256"
    by (simp add: log_a_def task_a_def)
  have v: "QuorumNumbers (Task log_a) = [0, 1]" "QuorumThresholdPercentage (Task log_a) = 67"
    "TaskIndex log_a = 5" "TaskCreatedBlock (Task log_a) = 1000"
    by (simp_all add: log_a_def task_a_def)
  from C10_thresholds_converted [of co_accept agg_empty "[]" log_a] h v
  show ?thesis by (simp add: to_QuorumThresholdPercentage_def)
qed

subsection \<open>The submission pipeline\<close>

text \<open>
  Claim C2 as stated: when the task or the response is absent from the registry, no
  call to the chain writer is made. It fails: with an empty registry a result without
  error still leads to one \<open>SendAggregatedResponse\<close> call, made with the zero-valued
  task and response that Go's map reads return.
\<close>

theorem C2_absent_still_submits:
  "tasks agg_empty (respTaskIndex resp_ok) = None \<and>
   taskResponses agg_empty (respTaskIndex resp_ok) = None \<and>
   sendAggregatedResponseToContract co_accept agg_empty [] resp_ok =
     Done [LogInfo ''Threshold reached. Sending aggregated response onchain.'',
           SendAggregatedResponse zero_Task zero_TaskResponse
             (build_nonSignerStakesAndSignature co_accept resp_ok)]"
  by (simp add: sendAggregatedResponseToContract_def agg_empty_def resp_ok_def co_accept_def
      lookup_task_def lookup_taskResponse_def Let_def)

text \<open>
  Claim C2, amended: for a result without error the function does not panic and makes
  one call to the chain writer, with the task stored under the result's index and the
  response stored under its index and digest, each replaced by the zero value of its type
  when it is absent.
\<close>

theorem C2_submits_stored_or_zero:
  assumes "Err r = None"
  shows "\<not> panicked (sendAggregatedResponseToContract co a w r) \<and>
         filter isSend (trace_of (sendAggregatedResponseToContract co a w r)) =
           filter isSend w @
           [SendAggregatedResponse
              (case tasks a (respTaskIndex r) of None \<Rightarrow> zero_Task | Some t \<Rightarrow> t)
              (case taskResponses a (respTaskIndex r) of
                 None \<Rightarrow> zero_TaskResponse
               | Some inner \<Rightarrow>
                   (case inner (TaskResponseDigest r) of
                      None \<Rightarrow> zero_TaskResponse
                    | Some x \<Rightarrow> x))
              (build_nonSignerStakesAndSignature co r)]"
  by (simp add: send_ok [OF assms] sendCall_def lookup_task_def lookup_taskResponse_def
      split: option.splits)

text \<open>
  Claim C2, amended, at a registry that holds both the task and the response.
\<close>

theorem C2_submits_stored_or_zero_witness:
  "Err resp_ok = None \<and>
   \<not> panicked (sendAggregatedResponseToContract co_accept agg_full [] resp_ok) \<and>
   filter isSend (trace_of (sendAggregatedResponseToContract co_accept agg_full [] resp_ok)) =
     [SendAggregatedResponse task_a response_a
        (build_nonSignerStakesAndSignature co_accept resp_ok)]"
proof -
  have h: "Err resp_ok = None"
    by (simp add: resp_ok_def)
  have k: "tasks agg_full (respTaskIndex resp_ok) = Some task_a"
    "taskResponses agg_full (respTaskIndex resp_ok) = Some [171 \<mapsto> response_a]"
    "TaskResponseDigest resp_ok = 171"
    by (simp_all add: agg_full_def agg_one_def agg_empty_def resp_ok_def)
  from C2_submits_stored_or_zero [OF h, of co_accept agg_full "[]"] h k
  show ?thesis by simp
qed

text \<open>
  Claim C3: a result that carries an error is logged once as an error and panics with
  that error; no call to the chain writer is made, and the dispatch loop ends in that
  panic without handling any later case.
\<close>

theorem C3_error_result_panics:
  assumes "Err r = Some e"
  shows "sendAggregatedResponseToContract co a w r =
           Panic e (w @ [LogError ''BlsAggregationServiceResponse contains an error'' e]) \<and>
         filter isSend (trace_of (sendAggregatedResponseToContract co a w r)) =
           filter isSend w \<and>
         dispatch co s (BlsAggServiceResp r # rest) =
           Panicked e
             (s\<lparr>world := world s @
                  [LogInfo ''Received response from blsAggregationService'',
                   LogError ''BlsAggregationServiceResponse contains an error'' e]\<rparr>)"
  by (simp add: send_err [OF assms])

text \<open>
  Claim C3 at an expired result followed by a cancellation.
\<close>

theorem C3_error_result_panics_witness:
  "Err resp_expired = Some ''task expired'' \<and>
   dispatch co_accept (loop_start agg_full) [BlsAggServiceResp resp_expired, CtxDone] =
     Panicked ''task expired''
       ((loop_start agg_full)\<lparr>world := world (loop_start agg_full) @
          [LogInfo ''Received response from blsAggregationService'',
           LogError ''BlsAggregationServiceResponse contains an error'' ''task expired'']\<rparr>)"
proof -
  have h: "Err resp_expired = Some ''task expired''"
    by (simp add: resp_expired_def)
  from C3_error_result_panics [OF h, of co_accept agg_full "[]" "loop_start agg_full" "[CtxDone]"] h
  show ?thesis by blast
qed

text \<open>
  Claim C8: a result without error leads to exactly one call to the chain writer; when
  that call returns an error, the error is logged and nothing else follows the call (no
  second attempt); the loop goes on with the aggregator's fields, the registry among
  them, as they were.
\<close>

theorem C8_one_attempt_no_retry:
  assumes "Err r = None"
  shows "length (filter isSend (trace_of (sendAggregatedResponseToContract co a w r))) =
           length (filter isSend w) + 1 \<and>
         (\<forall>e. SendAggregatedResponse_err co
                 (w @ [LogInfo ''Threshold reached. Sending aggregated response onchain.''])
                 (lookup_task a (respTaskIndex r))
                 (lookup_taskResponse a (respTaskIndex r) (TaskResponseDigest r))
                 (build_nonSignerStakesAndSignature co r) = Some e \<longrightarrow>
               sendAggregatedResponseToContract co a w r =
                 Done (w @ [LogInfo ''Threshold reached. Sending aggregated response onchain.'',
                            sendCall co a r,
                            LogError ''Aggregator failed to respond to task'' e])) \<and>
         dispatch co s (BlsAggServiceResp r # rest) =
           dispatch co
             (s\<lparr>world := trace_of (sendAggregatedResponseToContract co (agg s)
                  (world s @ [LogInfo ''Received response from blsAggregationService'']) r)\<rparr>)
             rest"
  by (simp add: send_ok [OF assms] isSend_sendCall split: option.splits)

text \<open>
  Claim C8 at a registry holding the task and the response, with a chain writer that
  rejects the call.
\<close>

theorem C8_one_attempt_no_retry_witness:
  "Err resp_ok = None \<and>
   SendAggregatedResponse_err co_reject
     ([] @ [LogInfo ''Threshold reached. Sending aggregated response onchain.''])
     (lookup_task agg_full (respTaskIndex resp_ok))
     (lookup_taskResponse agg_full (respTaskIndex resp_ok) (TaskResponseDigest resp_ok))
     (build_nonSignerStakesAndSignature co_reject resp_ok) = Some ''reverted'' \<and>
   length (filter isSend
     (trace_of (sendAggregatedResponseToContract co_reject agg_full [] resp_ok))) = 1 \<and>
   sendAggregatedResponseToContract co_reject agg_full [] resp_ok =
     Done [LogInfo ''Threshold reached. Sending aggregated response onchain.'',
           sendCall co_reject agg_full resp_ok,
           LogError ''Aggregator failed to respond to task'' ''reverted'']"
proof -
  have h: "Err resp_ok = None"
    by (simp add: resp_ok_def)
  have k: "SendAggregatedResponse_err co_reject
     ([] @ [LogInfo ''Threshold reached. Sending aggregated response onchain.''])
     (lookup_task agg_full (respTaskIndex resp_ok))
     (lookup_taskResponse agg_full (respTaskIndex resp_ok) (TaskResponseDigest resp_ok))
     (build_nonSignerStakesAndSignature co_reject resp_ok) = Some ''reverted''"
    by (simp add: co_reject_def)
  note inst = C8_one_attempt_no_retry
    [OF h, of co_reject agg_full "[]" "loop_start agg_full" "[CtxDone]"]
  from inst have n: "length (filter isSend
      (trace_of (sendAggregatedResponseToContract co_reject agg_full [] resp_ok))) =
      length (filter isSend ([] :: (nat, nat) effect list)) + 1"
    by (rule conjunct1)
  from inst k have d: "sendAggregatedResponseToContract co_reject agg_full [] resp_ok =
     Done ([] @ [LogInfo ''Threshold reached. Sending aggregated response onchain.'',
           sendCall co_reject agg_full resp_ok,
           LogError ''Aggregator failed to respond to task'' ''reverted''])"
    by blast
  from n have n1: "length (filter isSend
      (trace_of (sendAggregatedResponseToContract co_reject agg_full [] resp_ok))) = 1"
    by simp
  from d have d1: "sendAggregatedResponseToContract co_reject agg_full [] resp_ok =
     Done [LogInfo ''Threshold reached. Sending aggregated response onchain.'',
           sendCall co_reject agg_full resp_ok,
           LogError ''Aggregator failed to respond to task'' ''reverted'']"
    by simp
  from h k n1 d1 show ?thesis
    by (intro conjI)
qed


subsection \<open>The dispatch loop\<close>

text \<open>
  Claim C6: \<open>Start\<close> returns only when the cancellation case fires, and then it
  returns nil; an error of \<open>processTaskCreatedLog\<close> is logged and the loop goes on
  with the next case, so a run made of task-created events only, whatever their errors,
  leaves the loop waiting in its \<open>select\<close>.
\<close>

theorem C6_loop_survives_errors:
  "(Start co a w cs = Returned r s' \<longrightarrow> r = None \<and> CtxDone \<in> set cs) \<and>
   dispatch co s (CtxDone # rest) = Returned None s \<and>
   (fst (processTaskCreatedLog co (agg s) (world s @ [LogInfo ''Received new task'']) l) = Some e
      \<longrightarrow> dispatch co s (NewTaskCreatedLog l # rest) =
            dispatch co
              (s\<lparr>agg := (agg s)\<lparr>tasks := (tasks (agg s))(TaskIndex l \<mapsto> Task l)\<rparr>,
                 world := world s @
                   [LogInfo ''Received new task'', initCall l,
                    LogError ''Failed to process new task'' e]\<rparr>)
              rest) \<and>
   (list_all isTaskCreated cs' \<longrightarrow> still_waiting (dispatch co s cs'))"
proof -
  have "Start co a w cs = Returned r s' \<longrightarrow> r = None \<and> CtxDone \<in> set cs"
    unfolding Start_def Let_def by (blast dest: dispatch_Returned)
  moreover have "fst (processTaskCreatedLog co (agg s) (world s @ [LogInfo ''Received new task'']) l) = Some e
      \<longrightarrow> dispatch co s (NewTaskCreatedLog l # rest) =
            dispatch co
              (s\<lparr>agg := (agg s)\<lparr>tasks := (tasks (agg s))(TaskIndex l \<mapsto> Task l)\<rparr>,
                 world := world s @
                   [LogInfo ''Received new task'', initCall l,
                    LogError ''Failed to process new task'' e]\<rparr>)
              rest"
    unfolding dispatch_NewTaskCreatedLog by simp
  ultimately show ?thesis
    by (simp add: dispatch_created_only)
qed

text \<open>
  Claim C6 on a run where the aggregation service rejects the task and the
  cancellation follows.
\<close>

theorem C6_loop_survives_errors_witness:
  "Start co_reject agg_empty [] [NewTaskCreatedLog log_a, CtxDone] =
     Returned None
       \<lparr>agg = agg_empty\<lparr>tasks := (tasks agg_empty)(TaskIndex log_a \<mapsto> Task log_a)\<rparr>,
        subTaskCreated = 3, subTaskResponded = 4,
        world = [LogInfo ''Starting aggregator'', LogInfo ''Starting aggregator rpc server.'',
                 StartServer, SubscribeToNewTasks 0, SubscribeToTaskResponses 1,
                 LogInfo ''Received new task'', initCall log_a,
                 LogError ''Failed to process new task'' ''rejected'']\<rparr> \<and>
   CtxDone \<in> set [NewTaskCreatedLog log_a, CtxDone :: (nat, nat) select_case] \<and>
   fst (processTaskCreatedLog co_reject (agg (loop_start agg_empty))
          (world (loop_start agg_empty) @ [LogInfo ''Received new task'']) log_a) =
     Some ''rejected'' \<and>
   dispatch co_reject (loop_start agg_empty) [NewTaskCreatedLog log_a, CtxDone] =
     Returned None
       ((loop_start agg_empty)
          \<lparr>agg := (agg (loop_start agg_empty))
                   \<lparr>tasks := (tasks (agg (loop_start agg_empty)))
                              (TaskIndex log_a \<mapsto> Task log_a)\<rparr>,
           world := world (loop_start agg_empty) @
             [LogInfo ''Received new task'', initCall log_a,
              LogError ''Failed to process new task'' ''rejected'']\<rparr>) \<and>
   list_all isTaskCreated [NewTaskCreatedLog log_a :: (nat, nat) select_case] \<and>
   still_waiting (dispatch co_reject (loop_start agg_empty) [NewTaskCreatedLog log_a])"
proof -
  have run: "Start co_reject agg_empty [] [NewTaskCreatedLog log_a, CtxDone] =
     Returned None
       \<lparr>agg = agg_empty\<lparr>tasks := (tasks agg_empty)(TaskIndex log_a \<mapsto> Task log_a)\<rparr>,
        subTaskCreated = 3, subTaskResponded = 4,
        world = [LogInfo ''Starting aggregator'', LogInfo ''Starting aggregator rpc server.'',
                 StartServer, SubscribeToNewTasks 0, SubscribeToTaskResponses 1,
                 LogInfo ''Received new task'', initCall log_a,
                 LogError ''Failed to process new task'' ''rejected'']\<rparr>"
    by (simp add: Start_def Let_def processTaskCreatedLog_def co_reject_def agg_empty_def)
  have rej: "fst (processTaskCreatedLog co_reject (agg (loop_start agg_empty))
          (world (loop_start agg_empty) @ [LogInfo ''Received new task'']) log_a) =
     Some ''rejected''"
    by (simp add: processTaskCreatedLog_def co_reject_def Let_def)
  have only: "list_all isTaskCreated [NewTaskCreatedLog log_a :: (nat, nat) select_case]"
    by simp
  note inst = C6_loop_survives_errors
    [of co_reject agg_empty "[]" "[NewTaskCreatedLog log_a, CtxDone]" None _
        "loop_start agg_empty" "[CtxDone]" log_a "''rejected''" "[NewTaskCreatedLog log_a]"]
  from inst run rej only show ?thesis
    by simp
qed

text \<open>
  Claim C7: on an error of a subscription the loop logs the error, calls
  \<open>Unsubscribe\<close> on the handle it holds, subscribes again with the same channel and
  keeps the new handle, for either subscription; an event that follows is processed as
  usual: a task-created event is registered and \<open>InitializeNewTask\<close> is called for
  it, a task-responded event is logged. The first four statements give the whole state
  the loop waits in after such a run, the last three the same steps before any further
  cases.
\<close>

theorem C7_resubscribes:
  "dispatch co s [SubTaskCreatedErr e] =
     Waiting
       \<lparr>agg = agg s, subTaskCreated = length (world s) + 2,
        subTaskResponded = subTaskResponded s,
        world = world s @
          [LogError ''Error in websocket subscription for NewTaskCreated'' e,
           Unsubscribe (subTaskCreated s),
           SubscribeToNewTasks (newTaskCreatedChan (agg s))]\<rparr> \<and>
   dispatch co s [SubTaskRespondedErr e] =
     Waiting
       \<lparr>agg = agg s, subTaskCreated = subTaskCreated s,
        subTaskResponded = length (world s) + 2,
        world = world s @
          [LogError ''Error in websocket subscription for TaskResponded'' e,
           Unsubscribe (subTaskResponded s),
           SubscribeToTaskResponses (newTaskRespondedChan (agg s))]\<rparr> \<and>
   dispatch co s [SubTaskCreatedErr e, NewTaskCreatedLog l] =
     Waiting
       \<lparr>agg = (agg s)\<lparr>tasks := (tasks (agg s))(TaskIndex l \<mapsto> Task l)\<rparr>,
        subTaskCreated = length (world s) + 2,
        subTaskResponded = subTaskResponded s,
        world = world s @
          [LogError ''Error in websocket subscription for NewTaskCreated'' e,
           Unsubscribe (subTaskCreated s),
           SubscribeToNewTasks (newTaskCreatedChan (agg s)),
           LogInfo ''Received new task'', initCall l] @
          (case fst (processTaskCreatedLog co (agg s)
                       (world s @
                          [LogError ''Error in websocket subscription for NewTaskCreated'' e,
                           Unsubscribe (subTaskCreated s),
                           SubscribeToNewTasks (newTaskCreatedChan (agg s)),
                           LogInfo ''Received new task'']) l) of
             None \<Rightarrow> []
           | Some e' \<Rightarrow> [LogError ''Failed to process new task'' e'])\<rparr> \<and>
   dispatch co s [SubTaskRespondedErr e, TaskRespondedLog t] =
     Waiting
       \<lparr>agg = agg s, subTaskCreated = subTaskCreated s,
        subTaskResponded = length (world s) + 2,
        world = world s @
          [LogError ''Error in websocket subscription for TaskResponded'' e,
           Unsubscribe (subTaskResponded s),
           SubscribeToTaskResponses (newTaskRespondedChan (agg s)),
           LogInfo ''Received task response successfully!; taskRespondedLog: %#v'']\<rparr> \<and>
   dispatch co s (SubTaskCreatedErr e # rest) =
     dispatch co
       (s\<lparr>subTaskCreated := length (world s) + 2,
          world := world s @
            [LogError ''Error in websocket subscription for NewTaskCreated'' e,
             Unsubscribe (subTaskCreated s),
             SubscribeToNewTasks (newTaskCreatedChan (agg s))]\<rparr>)
       rest \<and>
   dispatch co s (SubTaskRespondedErr e # rest) =
     dispatch co
       (s\<lparr>subTaskResponded := length (world s) + 2,
          world := world s @
            [LogError ''Error in websocket subscription for TaskResponded'' e,
             Unsubscribe (subTaskResponded s),
             SubscribeToTaskResponses (newTaskRespondedChan (agg s))]\<rparr>)
       rest \<and>
   dispatch co s (SubTaskCreatedErr e # NewTaskCreatedLog l # rest) =
     dispatch co
       (s\<lparr>subTaskCreated := length (world s) + 2,
          agg := (agg s)\<lparr>tasks := (tasks (agg s))(TaskIndex l \<mapsto> Task l)\<rparr>,
          world := world s @
            [LogError ''Error in websocket subscription for NewTaskCreated'' e,
             Unsubscribe (subTaskCreated s),
             SubscribeToNewTasks (newTaskCreatedChan (agg s)),
             LogInfo ''Received new task'', initCall l] @
            (case fst (processTaskCreatedLog co (agg s)
                         (world s @
                            [LogError ''Error in websocket subscription for NewTaskCreated'' e,
                             Unsubscribe (subTaskCreated s),
                             SubscribeToNewTasks (newTaskCreatedChan (agg s)),
                             LogInfo ''Received new task'']) l) of
               None \<Rightarrow> []
             | Some e' \<Rightarrow> [LogError ''Failed to process new task'' e'])\<rparr>)
       rest"
  by (simp add: Let_def processTaskCreatedLog_def split: option.splits)

text \<open>
  Claim C7 on a run of \<open>Start\<close>: the first subscription (handle 3) fails, is
  replaced by a new one (handle 7) on the same channel, and the task-created event that
  follows is registered and initialized.
\<close>

theorem C7_resubscribes_witness:
  "Start co_accept agg_empty [] [SubTaskCreatedErr ''eof'', NewTaskCreatedLog log_a] =
     Waiting
       \<lparr>agg = agg_empty\<lparr>tasks := (tasks agg_empty)(TaskIndex log_a \<mapsto> Task log_a)\<rparr>,
        subTaskCreated = 7, subTaskResponded = 4,
        world = [LogInfo ''Starting aggregator'', LogInfo ''Starting aggregator rpc server.'',
                 StartServer, SubscribeToNewTasks 0, SubscribeToTaskResponses 1,
                 LogError ''Error in websocket subscription for NewTaskCreated'' ''eof'',
                 Unsubscribe 3, SubscribeToNewTasks 0,
                 LogInfo ''Received new task'', initCall log_a]\<rparr>"
proof -
  let ?s = "\<lparr>agg = agg_empty, subTaskCreated = 3, subTaskResponded = 4,
             world = [LogInfo ''Starting aggregator'',
                      LogInfo ''Starting aggregator rpc server.'', StartServer,
                      SubscribeToNewTasks 0, SubscribeToTaskResponses 1]\<rparr>
            :: (nat, nat) loop_state"
  have st: "Start co_accept agg_empty [] [SubTaskCreatedErr ''eof'', NewTaskCreatedLog log_a] =
              dispatch co_accept ?s [SubTaskCreatedErr ''eof'', NewTaskCreatedLog log_a]"
    by (simp add: Start_def Let_def agg_empty_def eval_nat_numeral del: dispatch.simps)
  have ok: "fst (processTaskCreatedLog co_accept (agg ?s) w log_a) = None" for w
    by (simp add: processTaskCreatedLog_def co_accept_def Let_def)
  note inst = C7_resubscribes
    [where co = co_accept and s = ?s and e = "''eof''" and l = log_a
       and t = "\<lparr>TaskResponse = response_a\<rparr>" and rest = "[]"]
  from inst have "dispatch co_accept ?s [SubTaskCreatedErr ''eof'', NewTaskCreatedLog log_a] =
     Waiting
       \<lparr>agg = (agg ?s)\<lparr>tasks := (tasks (agg ?s))(TaskIndex log_a \<mapsto> Task log_a)\<rparr>,
        subTaskCreated = length (world ?s) + 2,
        subTaskResponded = subTaskResponded ?s,
        world = world ?s @
          [LogError ''Error in websocket subscription for NewTaskCreated'' ''eof'',
           Unsubscribe (subTaskCreated ?s),
           SubscribeToNewTasks (newTaskCreatedChan (agg ?s)),
           LogInfo ''Received new task'', initCall log_a] @
          (case fst (processTaskCreatedLog co_accept (agg ?s)
                       (world ?s @
                          [LogError ''Error in websocket subscription for NewTaskCreated'' ''eof'',
                           Unsubscribe (subTaskCreated ?s),
                           SubscribeToNewTasks (newTaskCreatedChan (agg ?s)),
                           LogInfo ''Received new task'']) log_a) of
             None \<Rightarrow> []
           | Some e' \<Rightarrow> [LogError ''Failed to process new task'' e'])\<rparr>"
    by blast
  then show ?thesis
    unfolding st ok by (simp add: agg_empty_def)
qed

text \<open>
  Claim C9: a task-responded event adds one info entry to the log and nothing else: the
  aggregator's fields (the two maps among them) and both subscription handles are the
  same afterwards, and the loop goes on (here: waits in its \<open>select\<close>) without
  error.
\<close>

theorem C9_task_responded_only_logs:
  "dispatch co s (TaskRespondedLog l # rest) =
     dispatch co
       (s\<lparr>world := world s @
            [LogInfo ''Received task response successfully!; taskRespondedLog: %#v'']\<rparr>)
       rest \<and>
   dispatch co s [TaskRespondedLog l] =
     Waiting
       \<lparr>agg = agg s, subTaskCreated = subTaskCreated s, subTaskResponded = subTaskResponded s,
        world = world s @
          [LogInfo ''Received task response successfully!; taskRespondedLog: %#v'']\<rparr>"
  by simp

end
